theory Spec2Isabelle
  imports Main "HOL-Library.Char_ord" "HOL-Library.List_Lexorder" "HOL-Library.Multiset"
    "HOL-Library.Sublist"
begin

section \<open>Data of the toolbelt\<close>

text \<open>
  The toolbelt is a command-line client of a remote control plane. The records below carry
  the fields of the SDK's structs that the commands read. Go strings are byte strings and
  \<open>string\<close> (a list of characters) with its lexicographic order is Go's \<open><\<close> on them.
  \<open>strings.ToLower\<close> belongs to the standard library: every function that calls it takes
  it as the parameter \<open>toLower\<close>.
\<close>

record Stack =
  stack_Uid :: string
  stack_Name :: string
  stack_Environment :: string
  stack_AccountName :: string

section \<open>stacks.go: the order of the stack table\<close>

text \<open>
  \<open>stacksByAccountThenName.Less(i, j)\<close>: first what it computes from the two elements, then
  the method on the slice. Reading the slice out of range panics in Go: that is \<open>None\<close>.
\<close>

definition stacksByAccountThenName_less :: "(string \<Rightarrow> string) \<Rightarrow> Stack \<Rightarrow> Stack \<Rightarrow> bool" where
  "stacksByAccountThenName_less toLower x y =
     (let accName1 = toLower (stack_AccountName x);
          accName2 = toLower (stack_AccountName y);
          name1 = toLower (stack_Name x);
          name2 = toLower (stack_Name y)
      in accName1 < accName2 \<or> (accName1 < accName2 \<and> name1 < name2))"

definition stacksByAccountThenName_Less ::
    "(string \<Rightarrow> string) \<Rightarrow> Stack list \<Rightarrow> nat \<Rightarrow> nat \<Rightarrow> bool option" where
  "stacksByAccountThenName_Less toLower arr i j =
     (if i < length arr \<and> j < length arr
      then Some (stacksByAccountThenName_less toLower (arr ! i) (arr ! j))
      else None)"

text \<open>ASCII lower-casing, the instance of \<open>toLower\<close> used in the worked examples.\<close>

definition asciiLowerChar :: "char \<Rightarrow> char" where
  "asciiLowerChar c =
     (case map_of (zip ''ABCDEFGHIJKLMNOPQRSTUVWXYZ'' ''abcdefghijklmnopqrstuvwxyz'') c of
        Some d \<Rightarrow> d
      | None \<Rightarrow> c)"

definition asciiLower :: "string \<Rightarrow> string" where
  "asciiLower s = map asciiLowerChar s"

definition two_stacks_of_one_account :: "Stack list" where
  "two_stacks_of_one_account =
     [\<lparr>stack_Uid = ''u1'', stack_Name = ''zeta'', stack_Environment = ''production'',
        stack_AccountName = ''Acme''\<rparr>,
      \<lparr>stack_Uid = ''u2'', stack_Name = ''alpha'', stack_Environment = ''staging'',
        stack_AccountName = ''acme''\<rparr>]"

section \<open>Outcomes of a command\<close>

text \<open>
  \<open>printFatal\<close> and \<open>must\<close> are helpers of the toolbelt that every command uses: \<open>printFatal\<close>
  prints its message and exits the process, \<open>must err\<close> is \<open>printFatal\<close> of the error's text
  when \<open>err\<close> is not nil. A command therefore ends in \<open>Fatal\<close> with the message, or returns.
  \<open>Panic\<close> is a Go run-time panic (an index out of range, a nil dereference). An error
  value is its text.
\<close>

datatype exit_status = Returned | Fatal string | Panic

type_synonym error = string

record Formation =
  formation_Uid :: string
  formation_Name :: string

section \<open>formation.go: formations bundle download\<close>






section \<open>Resolving the organization and the stack\<close>

record Account =
  account_Id :: int
  account_Name :: string

text \<open>
  The package-level variables \<open>flagStack\<close>, \<open>flagOrg\<close> and \<open>flagEnvironment\<close>. A process starts
  with \<open>initial_globals\<close>.
\<close>

record globals =
  flagStack :: "Stack option"
  flagOrg :: "Account option"
  flagEnvironment :: string

definition initial_globals :: globals where
  "initial_globals = \<lparr>flagStack = None, flagOrg = None, flagEnvironment = []\<rparr>"

text \<open>
  What a function with a Go result \<open>(*T, error)\<close> gives: the pointer (\<open>None\<close> is nil) with a
  nil error, or an error, or a panic on an index out of range.
\<close>

datatype 'a call_result = Result "'a option" | Failure error | IndexPanic

text \<open>What \<open>org\<close> and \<open>stack\<close> do that is seen from outside, in order.\<close>

datatype resolve_event =
    AccountInfos
  | StackListWithFilter_Exact
  | StackListWithFilter_Fuzzy
  | FuzzyFind "string list" string bool
  | StackInfo string
  | StackFromGitRemote
  | Printed string

text \<open>
  \<open>fuzzyFind\<close> is a helper of the toolbelt that is not among the sources read here. It is
  the parameter \<open>fuzzyFind\<close>: given the names, the partial name and a flag it returns the
  index of the match or an error.
\<close>

type_synonym fuzzy_find = "string list \<Rightarrow> string \<Rightarrow> bool \<Rightarrow> error + int"

text \<open>The loop of \<open>org\<close> over the organizations: \<open>None\<close> is the return on an empty name.\<close>

fun orgNames_loop :: "Account list \<Rightarrow> string list \<Rightarrow> string list option" where
  "orgNames_loop [] orgNames = Some orgNames"
| "orgNames_loop (org # orgs) orgNames =
     (if account_Name org = [] then None
      else orgNames_loop orgs (orgNames @ [account_Name org]))"

definition org ::
    "fuzzy_find \<Rightarrow> globals \<Rightarrow> string \<Rightarrow> string \<Rightarrow> (error + Account list) \<Rightarrow>
     resolve_event list \<times> globals \<times> Account call_result" where
  "org fuzzyFind g orgFlag profileOrganization accountInfos =
     (case flagOrg g of
        Some a \<Rightarrow> ([], g, Result (Some a))
      | None \<Rightarrow>
          if orgFlag \<noteq> [] \<or> profileOrganization \<noteq> [] then
            (let orgToFind = (if orgFlag \<noteq> [] then orgFlag else profileOrganization) in
             case accountInfos of
               Inl err \<Rightarrow> ([AccountInfos], g, Failure err)
             | Inr orgs \<Rightarrow>
                 (case orgNames_loop orgs [] of
                    None \<Rightarrow>
                      ([AccountInfos], g,
                       Failure (''one or more of the organizations you are a member of doesn'' @
                         [CHR 0x27] @ ''t have a name. Please make sure you name the organizations''))
                  | Some orgNames \<Rightarrow>
                      (case fuzzyFind orgNames orgToFind False of
                         Inl err \<Rightarrow>
                           ([AccountInfos, FuzzyFind orgNames orgToFind False], g, Failure err)
                       | Inr idx \<Rightarrow>
                           if 0 \<le> idx \<and> idx < int (length orgs) then
                             ([AccountInfos, FuzzyFind orgNames orgToFind False],
                              g\<lparr>flagOrg := Some (orgs ! nat idx)\<rparr>,
                              Result (Some (orgs ! nat idx)))
                           else
                             ([AccountInfos, FuzzyFind orgNames orgToFind False], g, IndexPanic))))
          else ([], g\<lparr>flagOrg := None\<rparr>, Result None))"

text \<open>
  The two filters that \<open>stack\<close> hands to \<open>client.StackListWithFilter\<close>; they read the global
  \<open>flagEnvironment\<close>. \<open>strings.HasPrefix s p\<close> is \<open>prefix p s\<close>.
\<close>

definition filterByEnvironmentExact :: "(string \<Rightarrow> string) \<Rightarrow> string \<Rightarrow> Stack \<Rightarrow> bool" where
  "filterByEnvironmentExact toLower flagEnv item =
     (if flagEnv = [] then True
      else toLower (stack_Environment item) = toLower flagEnv)"

definition filterByEnvironmentFuzzy :: "(string \<Rightarrow> string) \<Rightarrow> string \<Rightarrow> Stack \<Rightarrow> bool" where
  "filterByEnvironmentFuzzy toLower flagEnv item =
     (if flagEnv = [] then True
      else prefix (toLower flagEnv) (toLower (stack_Environment item)))"

text \<open>
  \<open>client.StackListWithFilter\<close> is the SDK's: it asks the server for the stacks and keeps
  those that the filter accepts. \<open>server\<close> is the server's answer to the request.
\<close>

definition StackListWithFilter :: "(error + Stack list) \<Rightarrow> (Stack \<Rightarrow> bool) \<Rightarrow> error + Stack list" where
  "StackListWithFilter server keep =
     (case server of Inl err \<Rightarrow> Inl err | Inr stacks \<Rightarrow> Inr (filter keep stacks))"

text \<open>
  The end of the branch of \<open>stack\<close> for a partial name: \<open>flagStack = &stacks[idx]\<close>, the
  environment printed when \<open>--environment\<close> was given, and the return.
\<close>

definition select_stack ::
    "resolve_event list \<Rightarrow> globals \<Rightarrow> string \<Rightarrow> Stack list \<Rightarrow> int \<Rightarrow>
     resolve_event list \<times> globals \<times> Stack call_result" where
  "select_stack events g environmentFlag stacks idx =
     (if 0 \<le> idx \<and> idx < int (length stacks) then
        (events @
           (if environmentFlag \<noteq> []
            then [Printed (''('' @ stack_Environment (stacks ! nat idx) @ '')'' @ [CHR 0x0A])]
            else []),
         g\<lparr>flagStack := Some (stacks ! nat idx)\<rparr>,
         Result (Some (stacks ! nat idx)))
      else (events, g, IndexPanic))"

text \<open>
  \<open>stack\<close>. \<open>environmentFlag\<close> is \<open>c.String("environment")\<close>, \<open>stackArg\<close> is
  \<open>getArgument(c, "stack")\<close> (the \<open>--stack\<close> flag, or the entry of \<open>.cx.yml\<close>), \<open>cxstack\<close> is
  \<open>c.String("cxstack")\<close>. \<open>server1\<close> and \<open>server2\<close> are the server's answers to the first
  and the second list request, \<open>stackInfo\<close> and \<open>gitStack\<close> what \<open>client.StackInfo\<close> and
  \<open>stackFromGitRemote\<close> return.
\<close>

definition stack ::
    "fuzzy_find \<Rightarrow> (string \<Rightarrow> string) \<Rightarrow> globals \<Rightarrow> string \<Rightarrow> string \<Rightarrow> string \<Rightarrow>
     (error + Stack list) \<Rightarrow> (error + Stack list) \<Rightarrow>
     (string \<Rightarrow> Stack option \<times> error option) \<Rightarrow> Stack call_result \<Rightarrow>
     resolve_event list \<times> globals \<times> Stack call_result" where
  "stack fuzzyFind toLower g0 environmentFlag stackArg cxstack server1 server2 stackInfo gitStack =
     (case flagStack g0 of
        Some s \<Rightarrow> ([], g0, Result (Some s))
      | None \<Rightarrow>
          (let g = (if environmentFlag \<noteq> [] then g0\<lparr>flagEnvironment := environmentFlag\<rparr> else g0) in
           if stackArg \<noteq> [] then
             (case StackListWithFilter server1
                     (filterByEnvironmentExact toLower (flagEnvironment g)) of
                Inl err \<Rightarrow> ([StackListWithFilter_Exact], g, Failure err)
              | Inr stacks \<Rightarrow>
                  (let stackNames = map stack_Name stacks in
                   case fuzzyFind stackNames stackArg False of
                     Inr idx \<Rightarrow>
                       select_stack [StackListWithFilter_Exact, FuzzyFind stackNames stackArg False]
                         g environmentFlag stacks idx
                   | Inl err1 \<Rightarrow>
                       (case StackListWithFilter server2
                               (filterByEnvironmentFuzzy toLower (flagEnvironment g)) of
                          Inl err \<Rightarrow>
                            ([StackListWithFilter_Exact, FuzzyFind stackNames stackArg False,
                              StackListWithFilter_Fuzzy], g, Failure err)
                        | Inr stacks2 \<Rightarrow>
                            (let stackFuzzNames = map stack_Name stacks2 in
                             case fuzzyFind stackFuzzNames stackArg False of
                               Inl err \<Rightarrow>
                                 ([StackListWithFilter_Exact, FuzzyFind stackNames stackArg False,
                                   StackListWithFilter_Fuzzy,
                                   FuzzyFind stackFuzzNames stackArg False], g, Failure err)
                             | Inr idx \<Rightarrow>
                                 select_stack
                                   [StackListWithFilter_Exact, FuzzyFind stackNames stackArg False,
                                    StackListWithFilter_Fuzzy,
                                    FuzzyFind stackFuzzNames stackArg False]
                                   g environmentFlag stacks2 idx))))
           else if cxstack \<noteq> [] then
             (case stackInfo cxstack of
                (s, None) \<Rightarrow> ([StackInfo cxstack], g\<lparr>flagStack := s\<rparr>, Result s)
              | (s, Some err) \<Rightarrow> ([StackInfo cxstack], g\<lparr>flagStack := s\<rparr>, Failure err))
           else ([StackFromGitRemote], g, gitStack)))"

text \<open>
  A stand-in for \<open>fuzzyFind\<close> in the worked examples: the index of the first name that
  starts with the partial name.
\<close>

fun firstWithPrefix :: "string list \<Rightarrow> string \<Rightarrow> int \<Rightarrow> error + int" where
  "firstWithPrefix [] q i = Inl ''not found''"
| "firstWithPrefix (n # ns) q i = (if prefix q n then Inr i else firstWithPrefix ns q (i + 1))"

definition exampleFuzzyFind :: fuzzy_find where
  "exampleFuzzyFind names q exact = firstWithPrefix names q 0"


definition web_stack :: Stack where
  "web_stack = \<lparr>stack_Uid = ''u1'', stack_Name = ''web-shop'', stack_Environment = ''production'',
                 stack_AccountName = ''Acme''\<rparr>"

definition api_stack :: Stack where
  "api_stack = \<lparr>stack_Uid = ''u2'', stack_Name = ''api'', stack_Environment = ''Prod'',
                 stack_AccountName = ''Acme''\<rparr>"

section \<open>stacks-ssl.go: stacks ssl add\<close>

record SslCertificate =
  ssl_Uuid :: string
  ssl_Type :: string
  ssl_ServerNames :: string
  ssl_Certificate :: "string option"
  ssl_Key :: "string option"
  ssl_IntermediateCertificate :: "string option"

text \<open>The flags of \<open>stacks ssl add\<close>, as \<open>c.String\<close> and \<open>c.Bool\<close> read them.\<close>

record ssl_flags =
  flag_type :: string
  flag_domains :: string
  flag_cert :: string
  flag_key :: string
  flag_intermediate :: string
  flag_overwrite :: bool

text \<open>
  The SDK's constants \<open>cloud66.LetsEncryptSslCertificateType\<close> and
  \<open>cloud66.ManualSslCertificateType\<close> are the parameters \<open>letsEncrypt\<close> and \<open>manual\<close>. A new
  certificate struct has the zero value in every field that is not set.
\<close>

definition generateLetsEncryptSSLCertificate :: "string \<Rightarrow> ssl_flags \<Rightarrow> error + SslCertificate" where
  "generateLetsEncryptSSLCertificate letsEncrypt c =
     (let domains = flag_domains c in
      if domains = [] then
        Inl (''No domains names specified. Please use the --domains flag to specify '' @
             ''a list of comma separated domain names.'')
      else
        Inr \<lparr>ssl_Uuid = [], ssl_Type = letsEncrypt, ssl_ServerNames = domains,
             ssl_Certificate = None, ssl_Key = None, ssl_IntermediateCertificate = None\<rparr>)"

definition generateManualSSLCertificate ::
    "string \<Rightarrow> (string \<Rightarrow> error + string) \<Rightarrow> ssl_flags \<Rightarrow> error + SslCertificate" where
  "generateManualSSLCertificate manual readFile c =
     (let certificateFile = flag_cert c in
      if certificateFile = [] then
        Inl ''No certificate file specified. Please use the --cert flag to specify it.''
      else
        case readFile certificateFile of
          Inl err \<Rightarrow> Inl err
        | Inr certificate \<Rightarrow>
            (let keyFile = flag_key c in
             if keyFile = [] then
               Inl ''No key file specified. Please use the --key flag to specify it.''
             else
               case readFile keyFile of
                 Inl err \<Rightarrow> Inl err
               | Inr key \<Rightarrow>
                   (let intermediateFile = flag_intermediate c in
                    if intermediateFile \<noteq> [] then
                      (case readFile intermediateFile of
                         Inl err \<Rightarrow> Inl err
                       | Inr intermediate \<Rightarrow>
                           Inr \<lparr>ssl_Uuid = [], ssl_Type = manual,
                                ssl_ServerNames = flag_domains c,
                                ssl_Certificate = Some certificate, ssl_Key = Some key,
                                ssl_IntermediateCertificate = Some intermediate\<rparr>)
                    else
                      Inr \<lparr>ssl_Uuid = [], ssl_Type = manual, ssl_ServerNames = flag_domains c,
                           ssl_Certificate = Some certificate, ssl_Key = Some key,
                           ssl_IntermediateCertificate = None\<rparr>)))"

definition generateSSLCertificate ::
    "string \<Rightarrow> string \<Rightarrow> (string \<Rightarrow> error + string) \<Rightarrow> ssl_flags \<Rightarrow> error + SslCertificate" where
  "generateSSLCertificate letsEncrypt manual readFile c =
     (if flag_type c = letsEncrypt then generateLetsEncryptSSLCertificate letsEncrypt c
      else if flag_type c = manual then generateManualSSLCertificate manual readFile c
      else
        Inl (''Please ensure that you specify the SSL certificate type with the --type flag '' @
             ''(one of '' @ [CHR 0x27] @ letsEncrypt @ [CHR 0x27] @ '', or '' @
             [CHR 0x27] @ manual @ [CHR 0x27] @ '').''))"

text \<open>The calls of the command to the server and its output, in order.\<close>

datatype ssl_event =
    ListSslCertificates string
  | CreateSslCertificate string SslCertificate
  | UpdateSslCertificate string string SslCertificate
  | Println string

fun mutating :: "ssl_event \<Rightarrow> bool" where
  "mutating (CreateSslCertificate uid cert) = True"
| "mutating (UpdateSslCertificate uid uuid cert) = True"
| "mutating (ListSslCertificates uid) = False"
| "mutating (Println msg) = False"

text \<open>
  \<open>addSSLCertificate\<close>. \<open>resolved\<close> is what \<open>mustStack\<close> gives; \<open>listApi\<close>, \<open>createApi\<close> and
  \<open>updateApi\<close> are the server's answers.
\<close>

definition addSSLCertificate ::
    "string \<Rightarrow> string \<Rightarrow> (string \<Rightarrow> error + string) \<Rightarrow> error + Stack \<Rightarrow> ssl_flags \<Rightarrow>
     (string \<Rightarrow> error + SslCertificate list) \<Rightarrow>
     (string \<Rightarrow> SslCertificate \<Rightarrow> error + SslCertificate) \<Rightarrow>
     (string \<Rightarrow> string \<Rightarrow> SslCertificate \<Rightarrow> error + SslCertificate) \<Rightarrow>
     ssl_event list \<times> exit_status" where
  "addSSLCertificate letsEncrypt manual readFile resolved c listApi createApi updateApi =
     (case resolved of
        Inl msg \<Rightarrow> ([], Fatal msg)
      | Inr stk \<Rightarrow>
          (case listApi (stack_Uid stk) of
             Inl err \<Rightarrow> ([ListSslCertificates (stack_Uid stk)], Fatal err)
           | Inr sslCertificates \<Rightarrow>
               if length sslCertificates \<noteq> 0 \<and> \<not> flag_overwrite c then
                 ([ListSslCertificates (stack_Uid stk)],
                  Fatal (''SSL certificate already exists for this application. Please use the '' @
                         ''--overwrite flag if you want to overwrite the existing certificate.''))
               else
                 (case generateSSLCertificate letsEncrypt manual readFile c of
                    Inl err \<Rightarrow> ([ListSslCertificates (stack_Uid stk)], Fatal err)
                  | Inr sslCertificate \<Rightarrow>
                      if length sslCertificates \<noteq> 0 then
                        (let sslCertificateUUID = ssl_Uuid (sslCertificates ! 0) in
                         case updateApi (stack_Uid stk) sslCertificateUUID sslCertificate of
                           Inl err \<Rightarrow>
                             ([ListSslCertificates (stack_Uid stk),
                               UpdateSslCertificate (stack_Uid stk) sslCertificateUUID
                                 sslCertificate], Fatal err)
                         | Inr updated \<Rightarrow>
                             ([ListSslCertificates (stack_Uid stk),
                               UpdateSslCertificate (stack_Uid stk) sslCertificateUUID
                                 sslCertificate,
                               Println ''Updating SSL certificate...''], Returned))
                      else
                        (case createApi (stack_Uid stk) sslCertificate of
                           Inl err \<Rightarrow>
                             ([ListSslCertificates (stack_Uid stk),
                               CreateSslCertificate (stack_Uid stk) sslCertificate], Fatal err)
                         | Inr created \<Rightarrow>
                             ([ListSslCertificates (stack_Uid stk),
                               CreateSslCertificate (stack_Uid stk) sslCertificate,
                               Println ''Creating SSL certificate...''], Returned)))))"

definition no_flags :: ssl_flags where
  "no_flags = \<lparr>flag_type = [], flag_domains = [], flag_cert = [], flag_key = [],
               flag_intermediate = [], flag_overwrite = False\<rparr>"

definition old_certificate :: SslCertificate where
  "old_certificate = \<lparr>ssl_Uuid = ''c-17'', ssl_Type = ''manual'', ssl_ServerNames = ''shop.example.com'',
     ssl_Certificate = None, ssl_Key = None, ssl_IntermediateCertificate = None\<rparr>"

section \<open>formation.go: formations deploy\<close>

text \<open>
  The workflow library is external. Its options are the record below; \<open>time.Duration\<close>
  counts nanoseconds, so \<open>time.Minute\<close> is \<open>60 * 10^9\<close>. Its two entry points are parameters
  of the command: \<open>loadWorkflow\<close> stands for \<open>LoadWorkflowFromReader\<close> (the workflow, nil or
  not, and an error that the command does not look at), \<open>runWorkflow\<close> for \<open>workflow.Run\<close>
  (the aggregate run errors and the step errors, each nil or not).
\<close>

datatype log_level = InfoLevel | DebugLevel

datatype notifier = ConsoleNotify

record WorkflowOptions =
  wo_Notifier :: notifier
  wo_Concurrency :: int
  wo_Timeout :: int

definition time_Minute :: int where
  "time_Minute = 60 * 1000000000"

record deploy_flags =
  flag_formation :: string
  flag_snapshot_uid :: string
  flag_use_latest :: bool
  flag_log_level :: string

datatype 'w deploy_event =
    ClientFormations string bool
  | GetWorkflow string string string bool
  | LoadWorkflowFromReader log_level WorkflowOptions string
  | WorkflowRun "'w option" log_level

text \<open>
  \<open>runDeployFormation\<close>. \<open>numCPU\<close> is \<open>runtime.NumCPU()\<close>; \<open>formationsApi\<close> and \<open>getWorkflow\<close>
  are the server's answers, the latter the bytes of the workflow.
\<close>

definition runDeployFormation ::
    "int \<Rightarrow> error + Stack \<Rightarrow> deploy_flags \<Rightarrow>
     (string \<Rightarrow> bool \<Rightarrow> error + Formation list) \<Rightarrow>
     (string \<Rightarrow> string \<Rightarrow> string \<Rightarrow> bool \<Rightarrow> error + string) \<Rightarrow>
     (log_level \<Rightarrow> WorkflowOptions \<Rightarrow> string \<Rightarrow> 'w option \<times> error option) \<Rightarrow>
     ('w option \<Rightarrow> log_level \<Rightarrow> error option \<times> error option) \<Rightarrow>
     'w deploy_event list \<times> exit_status" where
  "runDeployFormation numCPU resolved c formationsApi getWorkflow loadWorkflow runWorkflow =
     (case resolved of
        Inl msg \<Rightarrow> ([], Fatal msg)
      | Inr stk \<Rightarrow>
          (let formationName = flag_formation c in
           if formationName = [] then
             ([], Fatal ''No formation provided. Please use --formation to specify a formation'')
           else
             case formationsApi (stack_Uid stk) True of
               Inl err \<Rightarrow> ([ClientFormations (stack_Uid stk) True], Fatal err)
             | Inr formations \<Rightarrow>
                 (case find (\<lambda>innerFormation. formation_Name innerFormation = formationName)
                         formations of
                    None \<Rightarrow>
                      ([ClientFormations (stack_Uid stk) True],
                       Fatal (''Formation with name '' @ [CHR 0x22] @ formationName @ [CHR 0x22] @
                              '' could not be found''))
                  | Some formation \<Rightarrow>
                      (let snapshotUID =
                             (if flag_snapshot_uid c = [] then ''latest'' else flag_snapshot_uid c);
                           useLatest = flag_use_latest c;
                           logLevel = flag_log_level c;
                           level = (if logLevel = ''info'' then InfoLevel
                                    else if logLevel = ''debug'' then DebugLevel
                                    else InfoLevel)
                       in
                       case getWorkflow (stack_Uid stk) (formation_Uid formation) snapshotUID
                              useLatest of
                         Inl err \<Rightarrow>
                           ([ClientFormations (stack_Uid stk) True,
                             GetWorkflow (stack_Uid stk) (formation_Uid formation) snapshotUID
                               useLatest], Fatal err)
                       | Inr workflowBytes \<Rightarrow>
                           (let options = \<lparr>wo_Notifier = ConsoleNotify,
                                           wo_Concurrency = numCPU - 1,
                                           wo_Timeout = 10 * time_Minute\<rparr>;
                                workflow = fst (loadWorkflow level options workflowBytes);
                                events =
                                  [ClientFormations (stack_Uid stk) True,
                                   GetWorkflow (stack_Uid stk) (formation_Uid formation)
                                     snapshotUID useLatest,
                                   LoadWorkflowFromReader level options workflowBytes,
                                   WorkflowRun workflow level]
                            in
                            case runWorkflow workflow level of
                              (Some runErrors, stepErrors) \<Rightarrow> (events, Fatal runErrors)
                            | (None, Some stepErrors) \<Rightarrow> (events, Fatal stepErrors)
                            | (None, None) \<Rightarrow> (events, Returned))))))"

definition deploy_web :: deploy_flags where
  "deploy_web = \<lparr>flag_formation = ''web'', flag_snapshot_uid = [], flag_use_latest = True,
                  flag_log_level = []\<rparr>"

definition web_formation :: Formation where
  "web_formation = \<lparr>formation_Uid = ''fm-1'', formation_Name = ''web''\<rparr>"

section \<open>The standard library's sort package\<close>

text \<open>
  \<open>sort.Sort\<close> is the standard library's. The functions that call it take it as the
  parameter \<open>srt\<close>: given the \<open>Less\<close> of the slice's type and the slice, the slice it leaves.
  \<open>sort.Sort\<close> only swaps elements, so it leaves a permutation; it is not stable. On a slice
  of at most six elements every release of the library runs its \<open>insertionSort\<close>, which is
  transcribed here for the worked examples: each element in turn moves left while it is
  \<open>Less\<close> than its left neighbour. \<open>sift\<close> is that inner loop, on the part of the slice left
  of the element, nearest neighbour first.
\<close>

fun sift :: "('a \<Rightarrow> 'a \<Rightarrow> bool) \<Rightarrow> 'a \<Rightarrow> 'a list \<Rightarrow> 'a list" where
  "sift lt x [] = [x]"
| "sift lt x (y # ys) = (if lt x y then y # sift lt x ys else x # y # ys)"

definition insertionSort :: "('a \<Rightarrow> 'a \<Rightarrow> bool) \<Rightarrow> 'a list \<Rightarrow> 'a list" where
  "insertionSort lt data = rev (foldl (\<lambda>left x. sift lt x left) [] data)"


text \<open>
  \<open>sort.Search n f\<close>: binary search for the least index in \<open>[0, n]\<close> at which \<open>f\<close> holds,
  with \<open>h = (i + j) / 2\<close> as the library computes it.
\<close>

function search_loop :: "(nat \<Rightarrow> bool) \<Rightarrow> nat \<Rightarrow> nat \<Rightarrow> nat" where
  "search_loop f i j =
     (if i < j then
        (let h = (i + j) div 2 in
         if \<not> f h then search_loop f (h + 1) j else search_loop f i h)
      else i)"
  by pat_completeness auto
termination
  by (relation "measure (\<lambda>(f, i, j). j - i)") auto

definition sort_Search :: "nat \<Rightarrow> (nat \<Rightarrow> bool) \<Rightarrow> nat" where
  "sort_Search n f = search_loop f 0 n"

definition sort_SearchStrings :: "string list \<Rightarrow> string \<Rightarrow> nat" where
  "sort_SearchStrings a x = sort_Search (length a) (\<lambda>i. a ! i \<ge> x)"

text \<open>
  \<open>sort.Strings\<close> sorts a slice of strings in increasing order. Equal strings cannot be told
  apart, so the sorted slice is determined: it is \<open>sort\<close> of the list.
\<close>

definition sort_Strings :: "string list \<Rightarrow> string list" where
  "sort_Strings a = sort a"

section \<open>formations list and snapshots list\<close>

text \<open>\<open>time.Time\<close> as nanoseconds since the Unix epoch; \<open>Unix()\<close> gives whole seconds.\<close>

type_synonym time = int

definition time_Unix :: "time \<Rightarrow> int" where
  "time_Unix t = t div 1000000000"

record Snapshot =
  snapshot_Uid :: string
  snapshot_TriggeredAt :: time
  snapshot_TriggeredBy :: string
  snapshot_Action :: string

text \<open>The \<open>Less\<close> of \<open>formationByName\<close> and of \<open>snapshotsByDate\<close>, on two elements.\<close>

definition formationByName_less :: "Formation \<Rightarrow> Formation \<Rightarrow> bool" where
  "formationByName_less x y = (formation_Name x < formation_Name y)"

definition snapshotsByDate_less :: "Snapshot \<Rightarrow> Snapshot \<Rightarrow> bool" where
  "snapshotsByDate_less x y =
     (time_Unix (snapshot_TriggeredAt x) \<ge> time_Unix (snapshot_TriggeredAt y))"

text \<open>
  \<open>printFormationList\<close> and \<open>printSnapshotList\<close>: the rows of the table under its header,
  top to bottom.
\<close>

definition printFormationList ::
    "((Formation \<Rightarrow> Formation \<Rightarrow> bool) \<Rightarrow> Formation list \<Rightarrow> Formation list) \<Rightarrow>
     Formation list \<Rightarrow> Formation list" where
  "printFormationList srt formations =
     filter (\<lambda>a. formation_Name a \<noteq> []) (srt formationByName_less formations)"

definition printSnapshotList ::
    "((Snapshot \<Rightarrow> Snapshot \<Rightarrow> bool) \<Rightarrow> Snapshot list \<Rightarrow> Snapshot list) \<Rightarrow>
     Snapshot list \<Rightarrow> Snapshot list" where
  "printSnapshotList srt snapshots =
     filter (\<lambda>a. snapshot_Uid a \<noteq> []) (srt snapshotsByDate_less snapshots)"

text \<open>
  The loop of \<open>runListFormations\<close> and \<open>runSnapshots\<close> that keeps the wanted elements;
  \<open>names\<close> is the sorted slice of lower-cased arguments and \<open>key\<close> reads the name or the UID.
\<close>

definition wanted :: "(string \<Rightarrow> string) \<Rightarrow> string list \<Rightarrow> string \<Rightarrow> bool" where
  "wanted toLower names key =
     (let sorted = sort_SearchStrings names (toLower key)
      in sorted < length names \<and> toLower (names ! sorted) = toLower key)"

fun filter_loop ::
    "(string \<Rightarrow> string) \<Rightarrow> string list \<Rightarrow> ('a \<Rightarrow> string) \<Rightarrow> 'a list \<Rightarrow> 'a list \<Rightarrow> 'a list" where
  "filter_loop toLower names key [] filtered = filtered"
| "filter_loop toLower names key (i # rest) filtered =
     (if wanted toLower names (key i)
      then filter_loop toLower names key rest (filtered @ [i])
      else filter_loop toLower names key rest filtered)"

text \<open>
  The two commands: the error message of a fatal exit, or the list handed to the printer
  together with the rows printed.
\<close>

definition runListFormations ::
    "(string \<Rightarrow> string) \<Rightarrow>
     ((Formation \<Rightarrow> Formation \<Rightarrow> bool) \<Rightarrow> Formation list \<Rightarrow> Formation list) \<Rightarrow>
     error + Stack \<Rightarrow> string list \<Rightarrow> (string \<Rightarrow> bool \<Rightarrow> error + Formation list) \<Rightarrow>
     error + (Formation list \<times> Formation list)" where
  "runListFormations toLower srt resolved args formationsApi =
     (case resolved of
        Inl msg \<Rightarrow> Inl msg
      | Inr stk \<Rightarrow>
          (case formationsApi (stack_Uid stk) False of
             Inl err \<Rightarrow> Inl err
           | Inr formations \<Rightarrow>
               (let formationNames = sort_Strings (map toLower args) in
                if length formationNames = 0 then
                  Inr (formations, printFormationList srt formations)
                else
                  (let filteredFormations =
                         filter_loop toLower formationNames formation_Name formations []
                   in Inr (filteredFormations, printFormationList srt filteredFormations)))))"

definition runSnapshots ::
    "(string \<Rightarrow> string) \<Rightarrow>
     ((Snapshot \<Rightarrow> Snapshot \<Rightarrow> bool) \<Rightarrow> Snapshot list \<Rightarrow> Snapshot list) \<Rightarrow>
     error + Stack \<Rightarrow> string list \<Rightarrow> (string \<Rightarrow> error + Snapshot list) \<Rightarrow>
     error + (Snapshot list \<times> Snapshot list)" where
  "runSnapshots toLower srt resolved args snapshotsApi =
     (case resolved of
        Inl msg \<Rightarrow> Inl msg
      | Inr stk \<Rightarrow>
          (case snapshotsApi (stack_Uid stk) of
             Inl err \<Rightarrow> Inl err
           | Inr snapshots \<Rightarrow>
               (let snapshotNames = sort_Strings (map toLower args) in
                if length snapshotNames = 0 then
                  Inr (snapshots, printSnapshotList srt snapshots)
                else
                  (let filteredSnapshots =
                         filter_loop toLower snapshotNames snapshot_Uid snapshots []
                   in Inr (filteredSnapshots, printSnapshotList srt filteredSnapshots)))))"

definition zeta_formation :: Formation where
  "zeta_formation = \<lparr>formation_Uid = ''fm-2'', formation_Name = ''zeta''\<rparr>"

definition alpha_formation :: Formation where
  "alpha_formation = \<lparr>formation_Uid = ''fm-3'', formation_Name = ''Alpha''\<rparr>"

section \<open>The latest snapshot\<close>






section \<open>snapshots render\<close>






















section \<open>stacks.go: stacks list with names\<close>


text \<open>
  \<open>listStacks\<close> with a non-empty list of names runs goroutines, so it is a transition system.
  Its state: the names that the first loop has still to visit; the names for which a
  goroutine has been started (kept for the record only); those among them whose goroutine
  has not sent its result yet; the contents of the two buffered channels, oldest first; how
  many results the second loop has received; the slice \<open>stacks\<close>; and how the command has
  ended, once it has.
\<close>

datatype listStacks_end = Printed "Stack list" | FatalExit string












section \<open>Theorems\<close>

lemma asciiLower_idem: "asciiLower (asciiLower s) = asciiLower s"
  by (induction s) (auto simp: asciiLower_def asciiLowerChar_def split: option.splits if_splits)

text \<open>
  C4. For every pair of stacks of the slice, \<open>stacksByAccountThenName.Less\<close> is true exactly
  when the lower-cased account name of the left stack is strictly below the lower-cased
  account name of the right stack. The stack names never enter: two stacks of the same
  account are equivalent whatever their names, and replacing the names of the two stacks
  leaves the answer as it was.
\<close>

theorem stacksByAccountThenName_Less_account_only:
  "i < length arr \<Longrightarrow> j < length arr \<Longrightarrow>
     stacksByAccountThenName_Less toLower arr i j =
       Some (toLower (stack_AccountName (arr ! i)) < toLower (stack_AccountName (arr ! j))) \<and>
     (stack_AccountName (arr ! i) = stack_AccountName (arr ! j) \<longrightarrow>
        stacksByAccountThenName_Less toLower arr i j = Some False \<and>
        stacksByAccountThenName_Less toLower arr j i = Some False) \<and>
     stacksByAccountThenName_Less toLower
        (arr[i := (arr ! i)\<lparr>stack_Name := n1\<rparr>, j := (arr ! j)\<lparr>stack_Name := n2\<rparr>]) i j =
       stacksByAccountThenName_Less toLower arr i j"
  by (auto simp: stacksByAccountThenName_Less_def stacksByAccountThenName_less_def Let_def
      nth_list_update)

theorem stacksByAccountThenName_Less_account_only_witness:
  "(0::nat) < length two_stacks_of_one_account \<and> (1::nat) < length two_stacks_of_one_account \<and>
   stacksByAccountThenName_Less asciiLower two_stacks_of_one_account 0 1 = Some False"
proof -
  have h0: "(0::nat) < length two_stacks_of_one_account"
    and h1: "(1::nat) < length two_stacks_of_one_account"
    by (simp_all add: two_stacks_of_one_account_def)
  from stacksByAccountThenName_Less_account_only [OF h0 h1, of asciiLower]
  have "stacksByAccountThenName_Less asciiLower two_stacks_of_one_account 0 1 =
        Some (asciiLower (stack_AccountName (two_stacks_of_one_account ! 0))
              < asciiLower (stack_AccountName (two_stacks_of_one_account ! 1)))"
    by blast
  then show ?thesis
    by (simp add: two_stacks_of_one_account_def asciiLower_def asciiLowerChar_def)
qed

subsection \<open>formations bundle download\<close>






subsection \<open>Resolving the organization\<close>




subsection \<open>Resolving the stack from a partial name\<close>

text \<open>
  C3, as stated, fails: with \<open>--environment prod\<close> and \<open>--stack web\<close> the first list holds only
  the stack \<open>api\<close>, the first fuzzy match fails, and the second list request is answered with an
  error. \<open>stack\<close> returns that error, and no fuzzy match on a second list was made.
\<close>

theorem stack_error_without_second_match:
  "stack exampleFuzzyFind asciiLower initial_globals ''prod'' ''web'' []
       (Inr [web_stack, api_stack]) (Inl ''connection reset by peer'')
       (\<lambda>name. (None, None)) (Result None) =
     ([StackListWithFilter_Exact, FuzzyFind [''api''] ''web'' False, StackListWithFilter_Fuzzy],
      initial_globals\<lparr>flagEnvironment := ''prod''\<rparr>,
      Failure ''connection reset by peer'')"
  by (simp add: stack_def initial_globals_def StackListWithFilter_def filterByEnvironmentExact_def
      web_stack_def api_stack_def asciiLower_def asciiLowerChar_def exampleFuzzyFind_def)

text \<open>
  C3, amended. When no stack is resolved yet and a partial stack name is supplied, \<open>stack\<close>
  filters the server's stacks to those whose environment equals the environment value
  case-insensitively (no filtering when it is empty) and fuzzy-matches the partial name
  against their names; if that match fails it asks again, with the filter weakened to a
  case-insensitive prefix match on the environment, and matches against the second list.
  It returns an error only if one of the two list requests fails or the fuzzy match also
  fails on the second list. The environment value is \<open>--environment\<close>, or what
  \<open>flagEnvironment\<close> holds when the flag is empty (nothing in a fresh process).
\<close>

theorem stack_partial_name:
  "flagStack gl = None \<Longrightarrow> stackArg \<noteq> [] \<Longrightarrow>
   env = (if environmentFlag \<noteq> [] then environmentFlag else flagEnvironment gl) \<Longrightarrow>
   exact = filter (\<lambda>s. env = [] \<or> toLower (stack_Environment s) = toLower env) \<Longrightarrow>
   fuzzy = filter (\<lambda>s. env = [] \<or> prefix (toLower env) (toLower (stack_Environment s))) \<Longrightarrow>
   r = snd (snd (stack fuzzyFind toLower gl environmentFlag stackArg cxstack server1 server2
                   stackInfo gitStack)) \<Longrightarrow>
   r = (case server1 of
          Inl err \<Rightarrow> Failure err
        | Inr all1 \<Rightarrow>
            (case fuzzyFind (map stack_Name (exact all1)) stackArg False of
               Inr idx \<Rightarrow>
                 (if 0 \<le> idx \<and> idx < int (length (exact all1))
                  then Result (Some (exact all1 ! nat idx)) else IndexPanic)
             | Inl e1 \<Rightarrow>
                 (case server2 of
                    Inl err \<Rightarrow> Failure err
                  | Inr all2 \<Rightarrow>
                      (case fuzzyFind (map stack_Name (fuzzy all2)) stackArg False of
                         Inl err \<Rightarrow> Failure err
                       | Inr idx \<Rightarrow>
                           (if 0 \<le> idx \<and> idx < int (length (fuzzy all2))
                            then Result (Some (fuzzy all2 ! nat idx)) else IndexPanic))))) \<and>
   (\<forall>e. r = Failure e \<longrightarrow>
      server1 = Inl e \<or>
      (\<exists>all1 e1. server1 = Inr all1 \<and>
         fuzzyFind (map stack_Name (exact all1)) stackArg False = Inl e1 \<and>
         (server2 = Inl e \<or>
          (\<exists>all2. server2 = Inr all2 \<and>
             fuzzyFind (map stack_Name (fuzzy all2)) stackArg False = Inl e))))"
proof -
  assume gl: "flagStack gl = None" and arg: "stackArg \<noteq> []"
    and env: "env = (if environmentFlag \<noteq> [] then environmentFlag else flagEnvironment gl)"
    and exact: "exact = filter (\<lambda>s. env = [] \<or> toLower (stack_Environment s) = toLower env)"
    and fuzzy: "fuzzy = filter (\<lambda>s. env = [] \<or> prefix (toLower env) (toLower (stack_Environment s)))"
    and r: "r = snd (snd (stack fuzzyFind toLower gl environmentFlag stackArg cxstack server1
                            server2 stackInfo gitStack))"
  define g where "g = (if environmentFlag \<noteq> [] then gl\<lparr>flagEnvironment := environmentFlag\<rparr> else gl)"
  have genv: "flagEnvironment g = env"
    by (simp add: g_def env)
  have ex: "filter (filterByEnvironmentExact toLower env) xs = exact xs" for xs
    unfolding exact by (rule filter_cong) (auto simp: filterByEnvironmentExact_def)
  have fz: "filter (filterByEnvironmentFuzzy toLower env) xs = fuzzy xs" for xs
    unfolding fuzzy by (rule filter_cong) (auto simp: filterByEnvironmentFuzzy_def)
  have sel: "snd (snd (select_stack evs g environmentFlag xs idx)) =
               (if 0 \<le> idx \<and> idx < int (length xs) then Result (Some (xs ! nat idx))
                else IndexPanic)" for evs xs idx
    by (simp add: select_stack_def)
  have unfold: "r =
     (case server1 of
        Inl err \<Rightarrow> Failure err
      | Inr all1 \<Rightarrow>
          (case fuzzyFind (map stack_Name (exact all1)) stackArg False of
             Inr idx \<Rightarrow>
               (if 0 \<le> idx \<and> idx < int (length (exact all1))
                then Result (Some (exact all1 ! nat idx)) else IndexPanic)
           | Inl e1 \<Rightarrow>
               (case server2 of
                  Inl err \<Rightarrow> Failure err
                | Inr all2 \<Rightarrow>
                    (case fuzzyFind (map stack_Name (fuzzy all2)) stackArg False of
                       Inl err \<Rightarrow> Failure err
                     | Inr idx \<Rightarrow>
                         (if 0 \<le> idx \<and> idx < int (length (fuzzy all2))
                          then Result (Some (fuzzy all2 ! nat idx)) else IndexPanic)))))"
    unfolding r stack_def
    using gl arg
    by (simp add: g_def [symmetric] Let_def genv StackListWithFilter_def ex fz sel
        split: sum.splits)
  have only_if: "\<forall>e. r = Failure e \<longrightarrow>
      server1 = Inl e \<or>
      (\<exists>all1 e1. server1 = Inr all1 \<and>
         fuzzyFind (map stack_Name (exact all1)) stackArg False = Inl e1 \<and>
         (server2 = Inl e \<or>
          (\<exists>all2. server2 = Inr all2 \<and>
             fuzzyFind (map stack_Name (fuzzy all2)) stackArg False = Inl e)))"
    unfolding unfold by (auto split: sum.splits if_splits)
  from unfold only_if show ?thesis by blast
qed

theorem stack_partial_name_witness:
  "flagStack initial_globals = None \<and> ''web'' \<noteq> [] \<and>
   exampleFuzzyFind [''api''] ''web'' False = Inl ''not found'' \<and>
   exampleFuzzyFind [''web-shop'', ''api''] ''web'' False = Inr 0 \<and>
   snd (snd (stack exampleFuzzyFind asciiLower initial_globals ''prod'' ''web'' []
               (Inr [web_stack, api_stack]) (Inr [web_stack, api_stack])
               (\<lambda>name. (None, None)) (Result None))) = Result (Some web_stack)"
proof -
  have g: "flagStack initial_globals = None"
    by (simp add: initial_globals_def)
  have a: "''web'' \<noteq> []"
    by simp
  have f1: "exampleFuzzyFind [''api''] ''web'' False = Inl ''not found''"
    by (simp add: exampleFuzzyFind_def)
  have f2: "exampleFuzzyFind [''web-shop'', ''api''] ''web'' False = Inr 0"
    by (simp add: exampleFuzzyFind_def)
  note t = stack_partial_name [OF g a refl refl refl refl,
      where toLower = asciiLower and environmentFlag = "''prod''" and fuzzyFind = exampleFuzzyFind
        and cxstack = "[]" and ?server1.0 = "Inr [web_stack, api_stack]"
        and ?server2.0 = "Inr [web_stack, api_stack]" and stackInfo = "\<lambda>name. (None, None)"
        and gitStack = "Result None"]
  from t have "snd (snd (stack exampleFuzzyFind asciiLower initial_globals ''prod'' ''web'' []
               (Inr [web_stack, api_stack]) (Inr [web_stack, api_stack])
               (\<lambda>name. (None, None)) (Result None))) = Result (Some web_stack)"
    by (simp add: web_stack_def api_stack_def asciiLower_def asciiLowerChar_def
        exampleFuzzyFind_def)
  with g a f1 f2 show ?thesis by blast
qed

subsection \<open>stacks ssl add\<close>

text \<open>
  C6, as stated, fails: the stack has no certificate and the command is run without
  \<open>--type\<close>. The claim promises exactly one call of \<open>CreateSslCertificate\<close>; the command lists
  the certificates, fails to build the new certificate and exits with no mutating call.
\<close>

theorem addSSLCertificate_without_type_no_call:
  "addSSLCertificate ''lets_encrypt'' ''manual'' (\<lambda>path. Inl ''no such file'') (Inr web_stack)
       no_flags (\<lambda>uid. Inr []) (\<lambda>uid cert. Inr cert) (\<lambda>uid uuid cert. Inr cert) =
     ([ListSslCertificates ''u1''],
      Fatal (''Please ensure that you specify the SSL certificate type with the --type flag '' @
             ''(one of '' @ [CHR 0x27] @ ''lets_encrypt'' @ [CHR 0x27] @ '', or '' @
             [CHR 0x27] @ ''manual'' @ [CHR 0x27] @ '').''))"
  by (simp add: addSSLCertificate_def generateSSLCertificate_def no_flags_def web_stack_def)

text \<open>
  C6, amended. \<open>stacks ssl add\<close> first lists the stack's certificates. If at least one
  exists and \<open>--overwrite\<close> is not given, it fails without a create or update call.
  Otherwise, if the certificate described by the flags can be built, it makes exactly one
  mutating call: \<open>CreateSslCertificate\<close> when no certificate exists, \<open>UpdateSslCertificate\<close> on
  the UUID of the first existing certificate when one exists (and \<open>--overwrite\<close> is given);
  if the certificate cannot be built it fails without a mutating call.
\<close>

theorem addSSLCertificate_calls:
  "listApi (stack_Uid stk) = Inr certs \<Longrightarrow>
   run = addSSLCertificate letsEncrypt manual readFile (Inr stk) c listApi createApi updateApi \<Longrightarrow>
   hd (fst run) = ListSslCertificates (stack_Uid stk) \<and>
   (certs \<noteq> [] \<and> \<not> flag_overwrite c \<longrightarrow>
      filter mutating (fst run) = [] \<and>
      snd run = Fatal (''SSL certificate already exists for this application. Please use the '' @
                       ''--overwrite flag if you want to overwrite the existing certificate.'')) \<and>
   (\<forall>cert. generateSSLCertificate letsEncrypt manual readFile c = Inr cert \<longrightarrow>
      (certs = [] \<longrightarrow>
         filter mutating (fst run) = [CreateSslCertificate (stack_Uid stk) cert]) \<and>
      (certs \<noteq> [] \<and> flag_overwrite c \<longrightarrow>
         filter mutating (fst run) =
           [UpdateSslCertificate (stack_Uid stk) (ssl_Uuid (hd certs)) cert])) \<and>
   (\<forall>err. generateSSLCertificate letsEncrypt manual readFile c = Inl err \<longrightarrow>
      filter mutating (fst run) = [] \<and>
      (certs = [] \<or> flag_overwrite c \<longrightarrow> snd run = Fatal err))"
  by (cases certs)
     (auto simp: addSSLCertificate_def Let_def split: sum.splits)

theorem addSSLCertificate_calls_witness:
  "(\<lambda>uid. Inr [old_certificate]) (stack_Uid web_stack) = Inr [old_certificate] \<and>
   generateSSLCertificate ''lets_encrypt'' ''manual'' (\<lambda>path. Inl ''no such file'')
       (no_flags\<lparr>flag_type := ''lets_encrypt'', flag_domains := ''shop.example.com'',
                 flag_overwrite := True\<rparr>) =
     Inr \<lparr>ssl_Uuid = [], ssl_Type = ''lets_encrypt'', ssl_ServerNames = ''shop.example.com'',
          ssl_Certificate = None, ssl_Key = None, ssl_IntermediateCertificate = None\<rparr> \<and>
   [old_certificate] \<noteq> [] \<and>
   filter mutating (fst (addSSLCertificate ''lets_encrypt'' ''manual'' (\<lambda>path. Inl ''no such file'')
       (Inr web_stack)
       (no_flags\<lparr>flag_type := ''lets_encrypt'', flag_domains := ''shop.example.com'',
                 flag_overwrite := True\<rparr>)
       (\<lambda>uid. Inr [old_certificate]) (\<lambda>uid cert. Inr cert) (\<lambda>uid uuid cert. Inr cert))) =
     [UpdateSslCertificate ''u1'' ''c-17''
        \<lparr>ssl_Uuid = [], ssl_Type = ''lets_encrypt'', ssl_ServerNames = ''shop.example.com'',
          ssl_Certificate = None, ssl_Key = None, ssl_IntermediateCertificate = None\<rparr>]"
proof -
  have l: "(\<lambda>uid. Inr [old_certificate]) (stack_Uid web_stack) = Inr [old_certificate]"
    by simp
  have gen: "generateSSLCertificate ''lets_encrypt'' ''manual'' (\<lambda>path. Inl ''no such file'')
       (no_flags\<lparr>flag_type := ''lets_encrypt'', flag_domains := ''shop.example.com'',
                 flag_overwrite := True\<rparr>) =
     Inr \<lparr>ssl_Uuid = [], ssl_Type = ''lets_encrypt'', ssl_ServerNames = ''shop.example.com'',
          ssl_Certificate = None, ssl_Key = None, ssl_IntermediateCertificate = None\<rparr>"
    by (simp add: generateSSLCertificate_def generateLetsEncryptSSLCertificate_def no_flags_def)
  from addSSLCertificate_calls [where letsEncrypt = "''lets_encrypt''" and manual = "''manual''"
      and readFile = "\<lambda>path. Inl ''no such file''"
      and c = "no_flags\<lparr>flag_type := ''lets_encrypt'', flag_domains := ''shop.example.com'',
                flag_overwrite := True\<rparr>"
      and createApi = "\<lambda>uid cert. Inr cert" and updateApi = "\<lambda>uid uuid cert. Inr cert",
      OF l refl] gen
  have "filter mutating (fst (addSSLCertificate ''lets_encrypt'' ''manual'' (\<lambda>path. Inl ''no such file'')
       (Inr web_stack)
       (no_flags\<lparr>flag_type := ''lets_encrypt'', flag_domains := ''shop.example.com'',
                 flag_overwrite := True\<rparr>)
       (\<lambda>uid. Inr [old_certificate]) (\<lambda>uid cert. Inr cert) (\<lambda>uid uuid cert. Inr cert))) =
     [UpdateSslCertificate (stack_Uid web_stack) (ssl_Uuid (hd [old_certificate]))
        \<lparr>ssl_Uuid = [], ssl_Type = ''lets_encrypt'', ssl_ServerNames = ''shop.example.com'',
          ssl_Certificate = None, ssl_Key = None, ssl_IntermediateCertificate = None\<rparr>]"
    by (simp add: no_flags_def)
  with l gen show ?thesis
    by (simp add: web_stack_def old_certificate_def)
qed

subsection \<open>formations deploy\<close>

text \<open>
  C2, as stated, fails where it says that both the run errors and the step errors are
  reported: when the execution returns both, the command exits on the run errors and the
  step errors are never printed.
\<close>

theorem runDeployFormation_step_errors_not_reported:
  "runDeployFormation 4 (Inr web_stack) deploy_web (\<lambda>uid full. Inr [web_formation])
       (\<lambda>uid formation snapshot latest. Inr ''steps: []'')
       (\<lambda>level options bytes. (Some (), None))
       (\<lambda>workflow level. (Some ''workflow timed out'', Some ''step build failed'')) =
     ([ClientFormations ''u1'' True, GetWorkflow ''u1'' ''fm-1'' ''latest'' True,
       LoadWorkflowFromReader InfoLevel
         \<lparr>wo_Notifier = ConsoleNotify, wo_Concurrency = 3, wo_Timeout = 600000000000\<rparr>
         ''steps: []'',
       WorkflowRun (Some ()) InfoLevel],
      Fatal ''workflow timed out'')"
  by (simp add: runDeployFormation_def deploy_web_def web_formation_def web_stack_def
      time_Minute_def)

text \<open>
  C2, amended. \<open>formations deploy\<close> downloads the workflow of the formation with the given
  name and of the snapshot (\<open>latest\<close> when none is given) and hands it to the workflow
  library with a concurrency limit of the number of CPUs minus one and a timeout of ten
  minutes. It reports the aggregate run errors of the execution when there are any, and
  exits; the step errors are reported only when there are no run errors.
\<close>

theorem runDeployFormation_run:
  "flag_formation c \<noteq> [] \<Longrightarrow>
   formationsApi (stack_Uid stk) True = Inr formations \<Longrightarrow>
   find (\<lambda>f. formation_Name f = flag_formation c) formations = Some formation \<Longrightarrow>
   snapshotUID = (if flag_snapshot_uid c = [] then ''latest'' else flag_snapshot_uid c) \<Longrightarrow>
   getWorkflow (stack_Uid stk) (formation_Uid formation) snapshotUID (flag_use_latest c) =
     Inr workflowBytes \<Longrightarrow>
   run = runDeployFormation numCPU (Inr stk) c formationsApi getWorkflow loadWorkflow
           runWorkflow \<Longrightarrow>
   (\<exists>level workflow.
      fst run =
        [ClientFormations (stack_Uid stk) True,
         GetWorkflow (stack_Uid stk) (formation_Uid formation) snapshotUID (flag_use_latest c),
         LoadWorkflowFromReader level
           \<lparr>wo_Notifier = ConsoleNotify, wo_Concurrency = numCPU - 1,
             wo_Timeout = 600000000000\<rparr> workflowBytes,
         WorkflowRun workflow level] \<and>
      workflow = fst (loadWorkflow level
           \<lparr>wo_Notifier = ConsoleNotify, wo_Concurrency = numCPU - 1,
             wo_Timeout = 600000000000\<rparr> workflowBytes) \<and>
      snd run =
        (case runWorkflow workflow level of
           (Some runErrors, stepErrors) \<Rightarrow> Fatal runErrors
         | (None, Some stepErrors) \<Rightarrow> Fatal stepErrors
         | (None, None) \<Rightarrow> Returned))"
proof -
  assume a: "flag_formation c \<noteq> []"
    and b: "formationsApi (stack_Uid stk) True = Inr formations"
    and f: "find (\<lambda>f. formation_Name f = flag_formation c) formations = Some formation"
    and s: "snapshotUID = (if flag_snapshot_uid c = [] then ''latest'' else flag_snapshot_uid c)"
    and w: "getWorkflow (stack_Uid stk) (formation_Uid formation) snapshotUID (flag_use_latest c) =
              Inr workflowBytes"
    and r: "run = runDeployFormation numCPU (Inr stk) c formationsApi getWorkflow loadWorkflow
                    runWorkflow"
  define level where "level = (if flag_log_level c = ''info'' then InfoLevel
                               else if flag_log_level c = ''debug'' then DebugLevel
                               else InfoLevel)"
  define options where "options = \<lparr>wo_Notifier = ConsoleNotify, wo_Concurrency = numCPU - 1,
                                     wo_Timeout = 600000000000\<rparr>"
  define workflow where "workflow = fst (loadWorkflow level options workflowBytes)"
  define events where "events =
        [ClientFormations (stack_Uid stk) True,
         GetWorkflow (stack_Uid stk) (formation_Uid formation) snapshotUID (flag_use_latest c),
         LoadWorkflowFromReader level options workflowBytes,
         WorkflowRun workflow level]"
  have w': "getWorkflow (stack_Uid stk) (formation_Uid formation)
              (if flag_snapshot_uid c = [] then ''latest'' else flag_snapshot_uid c)
              (flag_use_latest c) = Inr workflowBytes"
    using w s by simp
  obtain re se where rw: "runWorkflow workflow level = (re, se)"
    by (cases "runWorkflow workflow level")
  have run: "run = (events, (case re of Some runErrors \<Rightarrow> Fatal runErrors
                             | None \<Rightarrow> (case se of Some stepErrors \<Rightarrow> Fatal stepErrors
                                         | None \<Rightarrow> Returned)))"
    unfolding r runDeployFormation_def events_def
    using a rw [unfolded workflow_def options_def level_def]
    by (simp add: b f w' Let_def time_Minute_def s workflow_def options_def level_def
        split: option.splits)
  have e: "fst run = events"
    unfolding run by simp
  have x: "snd run =
        (case runWorkflow workflow level of
           (Some runErrors, stepErrors) \<Rightarrow> Fatal runErrors
         | (None, Some stepErrors) \<Rightarrow> Fatal stepErrors
         | (None, None) \<Rightarrow> Returned)"
    unfolding run rw by (simp split: option.splits)
  from e x show ?thesis
    unfolding events_def workflow_def options_def by blast
qed

theorem runDeployFormation_run_witness:
  "flag_formation deploy_web \<noteq> [] \<and>
   find (\<lambda>f. formation_Name f = flag_formation deploy_web) [web_formation] = Some web_formation \<and>
   snd (runDeployFormation 4 (Inr web_stack) deploy_web (\<lambda>uid full. Inr [web_formation])
       (\<lambda>uid formation snapshot latest. Inr ''steps: []'')
       (\<lambda>level options bytes. (Some (), None))
       (\<lambda>workflow level. (None, Some ''step build failed''))) = Fatal ''step build failed''"
proof -
  have a: "flag_formation deploy_web \<noteq> []"
    by (simp add: deploy_web_def)
  have b: "(\<lambda>uid full. Inr [web_formation]) (stack_Uid web_stack) True = Inr [web_formation]"
    by simp
  have f: "find (\<lambda>f. formation_Name f = flag_formation deploy_web) [web_formation] =
             Some web_formation"
    by (simp add: deploy_web_def web_formation_def)
  have w: "(\<lambda>uid formation snapshot latest. Inr ''steps: []'') (stack_Uid web_stack)
             (formation_Uid web_formation)
             (if flag_snapshot_uid deploy_web = [] then ''latest'' else flag_snapshot_uid deploy_web)
             (flag_use_latest deploy_web) = Inr ''steps: []''"
    by simp
  from runDeployFormation_run [where numCPU = 4 and stk = web_stack and c = deploy_web
      and formationsApi = "\<lambda>uid full. Inr [web_formation]"
      and formations = "[web_formation]" and formation = web_formation
      and getWorkflow = "\<lambda>uid formation snapshot latest. Inr ''steps: []''"
      and workflowBytes = "''steps: []''"
      and loadWorkflow = "\<lambda>level options bytes. (Some (), None)"
      and runWorkflow = "\<lambda>workflow level. (None, Some ''step build failed'')",
      OF a b f refl w refl]
  have "snd (runDeployFormation 4 (Inr web_stack) deploy_web (\<lambda>uid full. Inr [web_formation])
       (\<lambda>uid formation snapshot latest. Inr ''steps: []'')
       (\<lambda>level options bytes. (Some (), None))
       (\<lambda>workflow level. (None, Some ''step build failed''))) = Fatal ''step build failed''"
    by auto
  with a f show ?thesis by blast
qed

subsection \<open>Binary search\<close>

declare search_loop.simps [simp del]

lemma search_loop_stop: "\<not> i < j \<Longrightarrow> search_loop f i j = i"
  by (subst search_loop.simps) simp

lemma search_loop_step:
  "i < j \<Longrightarrow> search_loop f i j =
     (if f ((i + j) div 2) then search_loop f i ((i + j) div 2)
      else search_loop f ((i + j) div 2 + 1) j)"
  by (subst search_loop.simps) (simp add: Let_def)

lemma search_loop_least:
  "i \<le> j \<Longrightarrow> j \<le> n \<Longrightarrow> (\<forall>k < i. \<not> f k) \<Longrightarrow> (\<forall>k. j \<le> k \<and> k < n \<longrightarrow> f k) \<Longrightarrow>
   (\<forall>k l. k \<le> l \<and> l < n \<and> f k \<longrightarrow> f l) \<Longrightarrow>
   (\<forall>k < search_loop f i j. \<not> f k) \<and> (\<forall>k. search_loop f i j \<le> k \<and> k < n \<longrightarrow> f k)"
proof (induction f i j rule: search_loop.induct)
  case (1 f i j)
  show ?case
  proof (cases "i < j")
    case False
    with "1.prems" have "i = j" by simp
    with "1.prems" show ?thesis by (simp add: search_loop_stop)
  next
    case True
    define h where "h = (i + j) div 2"
    have h: "i \<le> h" "h < j" using True by (simp_all add: h_def)
    show ?thesis
    proof (cases "f h")
      case fh: True
      have up: "\<forall>k. h \<le> k \<and> k < n \<longrightarrow> f k"
        using "1.prems"(5) fh by blast
      have eq: "search_loop f i j = search_loop f i h"
        using True fh by (simp add: search_loop_step h_def)
      have "\<not> \<not> f h" using fh by simp
      from "1.IH"(2) [OF True h_def this h(1) _ "1.prems"(3) up "1.prems"(5)] h "1.prems"(2)
      show ?thesis unfolding eq by simp
    next
      case nfh: False
      have low: "\<forall>k < h + 1. \<not> f k"
      proof (intro allI impI notI)
        fix k assume "k < h + 1" and "f k"
        then have "f h" using "1.prems"(5) h "1.prems"(2) by (metis Suc_eq_plus1 less_Suc_eq_le order.strict_trans2)
        with nfh show False by simp
      qed
      have eq: "search_loop f i j = search_loop f (h + 1) j"
        using True nfh by (simp add: search_loop_step h_def)
      from "1.IH"(1) [OF True h_def nfh _ "1.prems"(2) low "1.prems"(4) "1.prems"(5)] h
      show ?thesis unfolding eq by simp
    qed
  qed
qed

lemma sort_SearchStrings_found:
  assumes "sorted a"
  shows "(sort_SearchStrings a x < length a \<and> a ! sort_SearchStrings a x = x) \<longleftrightarrow> x \<in> set a"
proof -
  define f where "f = (\<lambda>i. a ! i \<ge> x)"
  define r where "r = search_loop f 0 (length a)"
  have mono: "\<forall>k l. k \<le> l \<and> l < length a \<and> f k \<longrightarrow> f l"
    using assms by (auto simp: f_def sorted_iff_nth_mono intro: order_trans)
  have least: "(\<forall>k < r. \<not> f k) \<and> (\<forall>k. r \<le> k \<and> k < length a \<longrightarrow> f k)"
    unfolding r_def by (rule search_loop_least [where n = "length a"]) (use mono in auto)
  have r: "sort_SearchStrings a x = r"
    by (simp add: sort_SearchStrings_def sort_Search_def r_def f_def)
  show ?thesis
  proof
    assume "sort_SearchStrings a x < length a \<and> a ! sort_SearchStrings a x = x"
    then show "x \<in> set a" by (metis nth_mem)
  next
    assume "x \<in> set a"
    then obtain k where k: "k < length a" "a ! k = x"
      by (auto simp: in_set_conv_nth)
    then have "f k" by (simp add: f_def)
    with least have "r \<le> k" by (meson not_le)
    with k have rl: "r < length a" by simp
    with least have "x \<le> a ! r" by (simp add: f_def)
    moreover have "a ! r \<le> a ! k"
      using assms \<open>r \<le> k\<close> k(1) by (simp add: sorted_iff_nth_mono)
    ultimately have "a ! r = x" using k by simp
    with rl r show "sort_SearchStrings a x < length a \<and> a ! sort_SearchStrings a x = x"
      by simp
  qed
qed

subsection \<open>formations list and snapshots list\<close>

lemma filter_loop_eq:
  "filter_loop toLower names key xs filtered =
     filtered @ filter (\<lambda>i. wanted toLower names (key i)) xs"
  by (induction xs arbitrary: filtered) simp_all

lemma wanted_iff:
  assumes idem: "\<forall>s. toLower (toLower s) = toLower s"
  shows "wanted toLower (sort_Strings (map toLower args)) k \<longleftrightarrow>
           (\<exists>a \<in> set args. toLower a = toLower k)"
proof -
  define names where "names = sort_Strings (map toLower args)"
  define r where "r = sort_SearchStrings names (toLower k)"
  have sorted: "sorted names"
    by (simp add: names_def sort_Strings_def)
  have set: "set names = toLower ` set args"
    by (simp add: names_def sort_Strings_def)
  have found: "(r < length names \<and> names ! r = toLower k) \<longleftrightarrow> toLower k \<in> set names"
    unfolding r_def by (rule sort_SearchStrings_found [OF sorted])
  have low: "toLower (names ! r) = names ! r" if "r < length names"
  proof -
    from that have "names ! r \<in> toLower ` set args"
      using set nth_mem by blast
    then show ?thesis using idem by auto
  qed
  have "wanted toLower names k \<longleftrightarrow> (r < length names \<and> toLower (names ! r) = toLower k)"
    by (simp add: wanted_def r_def Let_def)
  also have "\<dots> \<longleftrightarrow> (r < length names \<and> names ! r = toLower k)"
    using low by auto
  also have "\<dots> \<longleftrightarrow> toLower k \<in> toLower ` set args"
    using found set by simp
  also have "\<dots> \<longleftrightarrow> (\<exists>a \<in> set args. toLower a = toLower k)"
    by (metis (no_types) image_iff)
  finally show ?thesis
    by (simp add: names_def)
qed

lemma sift_two: "sift lt x [y] = (if lt x y then [y, x] else [x, y])"
  by simp

text \<open>
  C8, as stated, fails: the server returns the formations \<open>zeta\<close> and \<open>Alpha\<close> in this order
  and the command is given the names \<open>ALPHA\<close> and \<open>Zeta\<close>. Both are kept, in the server's
  order, but the table shows \<open>Alpha\<close> before \<open>zeta\<close>: \<open>printFormationList\<close> sorts by name.
\<close>

theorem runListFormations_prints_sorted:
  "runListFormations asciiLower insertionSort (Inr web_stack) [''ALPHA'', ''Zeta'']
       (\<lambda>uid full. Inr [zeta_formation, alpha_formation]) =
     Inr ([zeta_formation, alpha_formation], [alpha_formation, zeta_formation])"
proof -
  have names: "sort_Strings (map asciiLower [''ALPHA'', ''Zeta'']) = [''alpha'', ''zeta'']"
    by (simp add: sort_Strings_def asciiLower_def asciiLowerChar_def)
  have s1: "sort_SearchStrings [''alpha'', ''zeta''] ''zeta'' = 1"
    by (simp add: sort_SearchStrings_def sort_Search_def search_loop.simps)
  have s2: "sort_SearchStrings [''alpha'', ''zeta''] ''alpha'' = 0"
    by (simp add: sort_SearchStrings_def sort_Search_def search_loop.simps)
  have w1: "wanted asciiLower [''alpha'', ''zeta''] ''zeta''"
    by (simp add: wanted_def s1 asciiLower_def asciiLowerChar_def)
  have w2: "wanted asciiLower [''alpha'', ''zeta''] ''Alpha''"
    by (simp add: wanted_def s2 asciiLower_def asciiLowerChar_def)
  have kept: "filter_loop asciiLower [''alpha'', ''zeta''] formation_Name
                [zeta_formation, alpha_formation] [] = [zeta_formation, alpha_formation]"
    using w1 w2 by (simp add: zeta_formation_def alpha_formation_def)
  have printed: "printFormationList insertionSort [zeta_formation, alpha_formation] =
                   [alpha_formation, zeta_formation]"
    by (simp add: printFormationList_def insertionSort_def formationByName_less_def
        zeta_formation_def alpha_formation_def)
  show ?thesis
    using names by (simp add: runListFormations_def Let_def kept printed del: filter_loop.simps)
qed

text \<open>
  C8, amended. For \<open>snapshots list\<close> and \<open>formations list\<close> with one or more name arguments,
  the list handed to the table printer holds exactly the elements whose UID (snapshots) or
  name (formations) equals one of the arguments case-insensitively, in the relative order in
  which the server returned them. The printer then sorts that list (formations by name,
  snapshots by date) and prints its elements that have a non-empty name or UID: when the
  sort leaves a permutation, the rows are those elements, in the sort's order. Lower-casing
  is taken to be idempotent.
\<close>

theorem list_commands_filter:
  "\<forall>s. toLower (toLower s) = toLower s \<Longrightarrow> args \<noteq> [] \<Longrightarrow>
   formationsApi (stack_Uid stk) False = Inr formations \<Longrightarrow>
   snapshotsApi (stack_Uid stk) = Inr snapshots \<Longrightarrow>
   keptF = filter (\<lambda>f. \<exists>a \<in> set args. toLower a = toLower (formation_Name f)) formations \<Longrightarrow>
   keptS = filter (\<lambda>s. \<exists>a \<in> set args. toLower a = toLower (snapshot_Uid s)) snapshots \<Longrightarrow>
   runListFormations toLower srtF (Inr stk) args formationsApi =
     Inr (keptF, filter (\<lambda>a. formation_Name a \<noteq> []) (srtF formationByName_less keptF)) \<and>
   runSnapshots toLower srtS (Inr stk) args snapshotsApi =
     Inr (keptS, filter (\<lambda>a. snapshot_Uid a \<noteq> []) (srtS snapshotsByDate_less keptS)) \<and>
   (mset (srtF formationByName_less keptF) = mset keptF \<longrightarrow>
      mset (filter (\<lambda>a. formation_Name a \<noteq> []) (srtF formationByName_less keptF)) =
        filter_mset (\<lambda>a. formation_Name a \<noteq> []) (mset keptF)) \<and>
   (mset (srtS snapshotsByDate_less keptS) = mset keptS \<longrightarrow>
      mset (filter (\<lambda>a. snapshot_Uid a \<noteq> []) (srtS snapshotsByDate_less keptS)) =
        filter_mset (\<lambda>a. snapshot_Uid a \<noteq> []) (mset keptS))"
proof -
  assume idem: "\<forall>s. toLower (toLower s) = toLower s" and args: "args \<noteq> []"
    and fa: "formationsApi (stack_Uid stk) False = Inr formations"
    and sa: "snapshotsApi (stack_Uid stk) = Inr snapshots"
    and kf: "keptF = filter (\<lambda>f. \<exists>a \<in> set args. toLower a = toLower (formation_Name f)) formations"
    and ks: "keptS = filter (\<lambda>s. \<exists>a \<in> set args. toLower a = toLower (snapshot_Uid s)) snapshots"
  have len: "length (sort_Strings (map toLower args)) \<noteq> 0"
    using args by (simp add: sort_Strings_def)
  have f: "filter_loop toLower (sort_Strings (map toLower args)) formation_Name formations [] = keptF"
    unfolding kf filter_loop_eq by (simp add: wanted_iff [OF idem])
  have s: "filter_loop toLower (sort_Strings (map toLower args)) snapshot_Uid snapshots [] = keptS"
    unfolding ks filter_loop_eq by (simp add: wanted_iff [OF idem])
  have a: "runListFormations toLower srtF (Inr stk) args formationsApi =
     Inr (keptF, filter (\<lambda>a. formation_Name a \<noteq> []) (srtF formationByName_less keptF))"
    using len by (simp add: runListFormations_def fa f Let_def printFormationList_def)
  have b: "runSnapshots toLower srtS (Inr stk) args snapshotsApi =
     Inr (keptS, filter (\<lambda>a. snapshot_Uid a \<noteq> []) (srtS snapshotsByDate_less keptS))"
    using len by (simp add: runSnapshots_def sa s Let_def printSnapshotList_def)
  have c: "mset (srtF formationByName_less keptF) = mset keptF \<longrightarrow>
      mset (filter (\<lambda>a. formation_Name a \<noteq> []) (srtF formationByName_less keptF)) =
        filter_mset (\<lambda>a. formation_Name a \<noteq> []) (mset keptF)"
    by (metis mset_filter)
  have d: "mset (srtS snapshotsByDate_less keptS) = mset keptS \<longrightarrow>
      mset (filter (\<lambda>a. snapshot_Uid a \<noteq> []) (srtS snapshotsByDate_less keptS)) =
        filter_mset (\<lambda>a. snapshot_Uid a \<noteq> []) (mset keptS)"
    by (metis mset_filter)
  from a b c d show ?thesis by blast
qed

theorem list_commands_filter_witness:
  "(\<forall>s. asciiLower (asciiLower s) = asciiLower s) \<and> [''ALPHA''] \<noteq> [] \<and>
   filter (\<lambda>f. \<exists>a \<in> set [''ALPHA'']. asciiLower a = asciiLower (formation_Name f))
     [zeta_formation, alpha_formation] = [alpha_formation] \<and>
   mset (insertionSort formationByName_less [alpha_formation]) = mset [alpha_formation] \<and>
   runListFormations asciiLower insertionSort (Inr web_stack) [''ALPHA'']
       (\<lambda>uid full. Inr [zeta_formation, alpha_formation]) =
     Inr ([alpha_formation], [alpha_formation])"
proof -
  have idem: "\<forall>s. asciiLower (asciiLower s) = asciiLower s"
    by (simp add: asciiLower_idem)
  have args: "[''ALPHA''] \<noteq> []"
    by simp
  have kept: "filter (\<lambda>f. \<exists>a \<in> set [''ALPHA'']. asciiLower a = asciiLower (formation_Name f))
     [zeta_formation, alpha_formation] = [alpha_formation]"
    by (simp add: zeta_formation_def alpha_formation_def asciiLower_def asciiLowerChar_def)
  have perm: "mset (insertionSort formationByName_less [alpha_formation]) = mset [alpha_formation]"
    by (simp add: insertionSort_def)
  have fa: "(\<lambda>uid full. Inr [zeta_formation, alpha_formation]) (stack_Uid web_stack) False =
              Inr [zeta_formation, alpha_formation]"
    by simp
  have sa: "(\<lambda>uid. Inr []) (stack_Uid web_stack) = Inr ([]::Snapshot list)"
    by simp
  from list_commands_filter [where toLower = asciiLower and args = "[''ALPHA'']"
      and stk = web_stack and formationsApi = "\<lambda>uid full. Inr [zeta_formation, alpha_formation]"
      and formations = "[zeta_formation, alpha_formation]"
      and snapshotsApi = "\<lambda>uid. Inr []" and snapshots = "[]"
      and srtF = insertionSort and srtS = insertionSort,
      OF idem args fa sa refl refl]
  have "runListFormations asciiLower insertionSort (Inr web_stack) [''ALPHA'']
       (\<lambda>uid full. Inr [zeta_formation, alpha_formation]) =
     Inr ([alpha_formation],
          filter (\<lambda>a. formation_Name a \<noteq> []) (insertionSort formationByName_less [alpha_formation]))"
    unfolding kept by blast
  then have "runListFormations asciiLower insertionSort (Inr web_stack) [''ALPHA'']
       (\<lambda>uid full. Inr [zeta_formation, alpha_formation]) =
     Inr ([alpha_formation], [alpha_formation])"
    by (simp add: insertionSort_def alpha_formation_def)
  with idem args kept perm show ?thesis by blast
qed

subsection \<open>Insertion sort\<close>






subsection \<open>The latest snapshot\<close>





subsection \<open>snapshots render\<close>







subsection \<open>stacks list with names\<close>


















end
